theory Spec2Isabelle
  imports Main "HOL-Library.Word"
begin

section \<open>Build configuration and included parts\<close>

text \<open>
  \<^verbatim>\<open>PixelFormat.cpp\<close> and \<^verbatim>\<open>Texture.h\<close> are compiled under preprocessor switches. Each
  switch is a boolean of the configuration: \<open>True\<close> when the macro is defined.
\<close>

type_synonym UnsignedInt = "32 word"
type_synonym GLenum = "32 word"

record config =
  MAGNUM_BUILD_DEPRECATED :: bool
  MAGNUM_TARGET_GL :: bool
  MAGNUM_TARGET_GLES :: bool
  MAGNUM_TARGET_GLES2 :: bool
  MAGNUM_TARGET_WEBGL :: bool

text \<open>
  The translation unit includes its two tables from
  \<^verbatim>\<open>Magnum/GL/Implementation/pixelFormatMapping.hpp\<close> and
  \<^verbatim>\<open>compressedPixelFormatMapping.hpp\<close>, and the predicates and unwrapping functions for
  implementation-specific formats from \<^verbatim>\<open>Magnum/PixelFormat.h\<close>. These headers are
  outside the two files verified here, so a build carries what they provide as fields: a row of
  \<open>FormatMapping\<close> is the pair \<open>(format, type)\<close> of the anonymous struct, every enum
  held by its underlying unsigned value (the code only converts the entries to
  \<^verbatim>\<open>UnsignedInt\<close> and hands them on). A row written with \<^verbatim>\<open>_s(input)\<close> is \<open>(0, 0)\<close>,
  respectively \<open>0\<close>.
\<close>

record build = config +
  FormatMapping :: "(GLenum \<times> GLenum) list"
  CompressedFormatMapping :: "GLenum list"
  isPixelFormatImplementationSpecific :: "UnsignedInt \<Rightarrow> bool"
  pixelFormatUnwrap :: "UnsignedInt \<Rightarrow> GLenum"
  isCompressedPixelFormatImplementationSpecific :: "UnsignedInt \<Rightarrow> bool"
  compressedPixelFormatUnwrap :: "UnsignedInt \<Rightarrow> GLenum"

text \<open>
  The block guarded by
  \<^verbatim>\<open>#if defined(MAGNUM_BUILD_DEPRECATED) && defined(MAGNUM_TARGET_GL)\<close>.
\<close>

definition deprecated_gl :: "'a config_scheme \<Rightarrow> bool" where
  "deprecated_gl c \<longleftrightarrow> MAGNUM_BUILD_DEPRECATED c \<and> MAGNUM_TARGET_GL c"

section \<open>Assertions\<close>

text \<open>
  \<^verbatim>\<open>CORRADE_ASSERT(condition, message, returnValue)\<close> prints the message when the
  condition is false and leaves the function, with \<open>returnValue\<close> where assertions are
  graceful. A failed assertion is the left summand of the result and keeps both the
  message and that value. \<^verbatim>\<open>CORRADE_ASSERT_UNREACHABLE()\<close> has no value to return.
\<close>

datatype message =
    invalid_format                      \<comment> \<open>\<^verbatim>\<open>"...(): invalid format" << format\<close>\<close>
  | not_supported_on_this_target        \<comment> \<open>\<^verbatim>\<open>"...(): format" << format << "is not supported on this target"\<close>\<close>
  | no_additional_type_specifier        \<comment> \<open>\<^verbatim>\<open>"GL::pixelType(): format is implementation-specific, but no additional type specifier was passed"\<close>\<close>
  | invalid_type_for_depth_stencil      \<comment> \<open>\<^verbatim>\<open>"GL::pixelSize(): invalid GL::PixelType specified for depth/stencil GL::PixelFormat"\<close>\<close>

datatype 'a failure = Assert message 'a | AssertUnreachable

type_synonym 'a result = "'a failure + 'a"

section \<open>Generic pixel formats to OpenGL formats and types\<close>

text \<open>
  \<^verbatim>\<open>Magnum::PixelFormat\<close> is an enum over \<^verbatim>\<open>UnsignedInt\<close>; the functions convert it with
  \<^verbatim>\<open>UnsignedInt(format)\<close> at every use. \<^verbatim>\<open>Containers::arraySize\<close> of a table is the
  length of the list. A \<^verbatim>\<open>{}\<close> return value is \<open>False\<close> for \<^verbatim>\<open>bool\<close> and \<open>0\<close> for an
  enum. Each \<^verbatim>\<open>CORRADE_ASSERT\<close> is the branch on its negated condition.
\<close>

definition hasPixelFormat :: "build \<Rightarrow> UnsignedInt \<Rightarrow> bool result" where
  "hasPixelFormat b format =
     (if isPixelFormatImplementationSpecific b format then Inr True
      else if deprecated_gl b \<and> format > 0x1000 then Inr True
      else if \<not> unat format < length (FormatMapping b) then Inl (Assert invalid_format False)
      else Inr (fst (FormatMapping b ! unat format) \<noteq> 0))"

definition pixelFormat :: "build \<Rightarrow> UnsignedInt \<Rightarrow> GLenum result" where
  "pixelFormat b format =
     (if isPixelFormatImplementationSpecific b format then Inr (pixelFormatUnwrap b format)
      else if deprecated_gl b \<and> format > 0x1000 then Inr format
      else if \<not> unat format < length (FormatMapping b) then Inl (Assert invalid_format 0)
      else let out = fst (FormatMapping b ! unat format)
           in if \<not> out \<noteq> 0 then Inl (Assert not_supported_on_this_target 0)
              else Inr out)"

definition pixelType :: "build \<Rightarrow> UnsignedInt \<Rightarrow> UnsignedInt \<Rightarrow> GLenum result" where
  "pixelType b format extra =
     (if isPixelFormatImplementationSpecific b format \<or> (deprecated_gl b \<and> format > 0x1000)
      then (if \<not> extra \<noteq> 0 then Inl (Assert no_additional_type_specifier 0)
            else Inr extra)
      else if \<not> unat format < length (FormatMapping b) then Inl (Assert invalid_format 0)
      else let out = snd (FormatMapping b ! unat format)
           in if \<not> out \<noteq> 0 then Inl (Assert not_supported_on_this_target 0)
              else Inr out)"

section \<open>Generic compressed pixel formats to OpenGL compressed formats\<close>

definition hasCompressedPixelFormat :: "build \<Rightarrow> UnsignedInt \<Rightarrow> bool result" where
  "hasCompressedPixelFormat b format =
     (if isCompressedPixelFormatImplementationSpecific b format then Inr True
      else if deprecated_gl b \<and> format > 0x1000 then Inr True
      else if \<not> unat format < length (CompressedFormatMapping b)
           then Inl (Assert invalid_format False)
      else Inr (CompressedFormatMapping b ! unat format \<noteq> 0))"

definition compressedPixelFormat :: "build \<Rightarrow> UnsignedInt \<Rightarrow> GLenum result" where
  "compressedPixelFormat b format =
     (if isCompressedPixelFormatImplementationSpecific b format
      then Inr (compressedPixelFormatUnwrap b format)
      else if deprecated_gl b \<and> format > 0x1000 then Inr format
      else if \<not> unat format < length (CompressedFormatMapping b)
           then Inl (Assert invalid_format 0)
      else Inr (CompressedFormatMapping b ! unat format))"

section \<open>Size of a pixel in an OpenGL format and type\<close>

text \<open>
  \<^verbatim>\<open>GL::PixelFormat\<close> and \<^verbatim>\<open>GL::PixelType\<close> are switched over by enumerator, so here
  they are datatypes of the enumerators the file names. Which of them a build declares
  depends on the target.
\<close>

datatype PixelFormat =
    Red | Green | Blue | Luminance | RG | LuminanceAlpha | RGB | RGBA | BGR | BGRA
  | SRGB | SRGBAlpha | RedInteger | GreenInteger | BlueInteger | RGInteger | RGBInteger
  | RGBAInteger | BGRInteger | BGRAInteger | DepthComponent | StencilIndex | DepthStencil

datatype PixelType =
    UnsignedByte | Byte | UnsignedShort | Short | UnsignedInt | Int' | HalfFloat | Float
  | UnsignedByte332 | UnsignedByte233Rev | UnsignedShort565 | UnsignedShort565Rev
  | UnsignedShort4444 | UnsignedShort4444Rev | UnsignedShort5551 | UnsignedShort1555Rev
  | UnsignedInt8888 | UnsignedInt8888Rev | UnsignedInt1010102 | UnsignedInt2101010Rev
  | UnsignedInt10F11F11FRev | UnsignedInt5999Rev | UnsignedInt248
  | Float32UnsignedInt248Rev

text \<open>
  The first \<^verbatim>\<open>switch\<close> of \<^verbatim>\<open>pixelSize\<close>, over the type. \<open>Inl n\<close> is \<^verbatim>\<open>return n\<close> from
  inside the switch, \<open>Inr sz\<close> is the value of the local \<^verbatim>\<open>std::size_t size\<close> (initially
  0) when control leaves the switch. A case label that the preprocessor removed matches
  nothing, so \<^verbatim>\<open>size\<close> keeps its initial value.
\<close>

fun switch_type :: "'a config_scheme \<Rightarrow> PixelType \<Rightarrow> UnsignedInt + 64 word" where
  "switch_type c UnsignedByte = Inr 1"
| "switch_type c Byte = (if \<not> MAGNUM_TARGET_GLES2 c then Inr 1 else Inr 0)"
| "switch_type c UnsignedShort = Inr 2"
| "switch_type c Short = (if \<not> MAGNUM_TARGET_GLES2 c then Inr 2 else Inr 0)"
| "switch_type c HalfFloat = Inr 2"
| "switch_type c UnsignedInt = Inr 4"
| "switch_type c Int' = (if \<not> MAGNUM_TARGET_GLES2 c then Inr 4 else Inr 0)"
| "switch_type c Float = Inr 4"
| "switch_type c UnsignedByte332 = (if \<not> MAGNUM_TARGET_GLES c then Inl 1 else Inr 0)"
| "switch_type c UnsignedByte233Rev = (if \<not> MAGNUM_TARGET_GLES c then Inl 1 else Inr 0)"
| "switch_type c UnsignedShort565 = Inl 2"
| "switch_type c UnsignedShort565Rev = (if \<not> MAGNUM_TARGET_GLES c then Inl 2 else Inr 0)"
| "switch_type c UnsignedShort4444 = Inl 2"
| "switch_type c UnsignedShort4444Rev = (if \<not> MAGNUM_TARGET_WEBGL c then Inl 2 else Inr 0)"
| "switch_type c UnsignedShort5551 = Inl 2"
| "switch_type c UnsignedShort1555Rev = (if \<not> MAGNUM_TARGET_WEBGL c then Inl 2 else Inr 0)"
| "switch_type c UnsignedInt8888 = (if \<not> MAGNUM_TARGET_GLES c then Inl 4 else Inr 0)"
| "switch_type c UnsignedInt8888Rev = (if \<not> MAGNUM_TARGET_GLES c then Inl 4 else Inr 0)"
| "switch_type c UnsignedInt1010102 = (if \<not> MAGNUM_TARGET_GLES c then Inl 4 else Inr 0)"
| "switch_type c UnsignedInt2101010Rev =
     (if \<not> (MAGNUM_TARGET_WEBGL c \<and> MAGNUM_TARGET_GLES2 c) then Inl 4 else Inr 0)"
| "switch_type c UnsignedInt10F11F11FRev = (if \<not> MAGNUM_TARGET_GLES2 c then Inl 4 else Inr 0)"
| "switch_type c UnsignedInt5999Rev = (if \<not> MAGNUM_TARGET_GLES2 c then Inl 4 else Inr 0)"
| "switch_type c UnsignedInt248 = Inl 4"
| "switch_type c Float32UnsignedInt248Rev = (if \<not> MAGNUM_TARGET_GLES2 c then Inl 8 else Inr 0)"

text \<open>
  The second \<^verbatim>\<open>switch\<close>, over the format. \<^verbatim>\<open>return n*size\<close> converts the \<^verbatim>\<open>std::size_t\<close>
  product to the \<^verbatim>\<open>UnsignedInt\<close> result; \<open>sz\<close> is the local \<^verbatim>\<open>size\<close>. A value that matches no case label reaches
  \<^verbatim>\<open>CORRADE_ASSERT_UNREACHABLE()\<close> behind the switch.
\<close>

fun switch_format :: "'a config_scheme \<Rightarrow> PixelFormat \<Rightarrow> 64 word \<Rightarrow> UnsignedInt result" where
  "switch_format c Red sz =
     (if \<not> (MAGNUM_TARGET_WEBGL c \<and> MAGNUM_TARGET_GLES2 c) then Inr (ucast (1 * sz))
      else Inl AssertUnreachable)"
| "switch_format c RedInteger sz =
     (if \<not> MAGNUM_TARGET_GLES2 c then Inr (ucast (1 * sz)) else Inl AssertUnreachable)"
| "switch_format c Green sz =
     (if \<not> MAGNUM_TARGET_GLES c then Inr (ucast (1 * sz)) else Inl AssertUnreachable)"
| "switch_format c Blue sz =
     (if \<not> MAGNUM_TARGET_GLES c then Inr (ucast (1 * sz)) else Inl AssertUnreachable)"
| "switch_format c GreenInteger sz =
     (if \<not> MAGNUM_TARGET_GLES c then Inr (ucast (1 * sz)) else Inl AssertUnreachable)"
| "switch_format c BlueInteger sz =
     (if \<not> MAGNUM_TARGET_GLES c then Inr (ucast (1 * sz)) else Inl AssertUnreachable)"
| "switch_format c Luminance sz =
     (if MAGNUM_TARGET_GLES2 c then Inr (ucast (1 * sz)) else Inl AssertUnreachable)"
| "switch_format c DepthComponent sz = Inr (ucast (1 * sz))"
| "switch_format c StencilIndex sz =
     (if \<not> MAGNUM_TARGET_WEBGL c then Inr (ucast (1 * sz)) else Inl AssertUnreachable)"
| "switch_format c RG sz =
     (if \<not> (MAGNUM_TARGET_WEBGL c \<and> MAGNUM_TARGET_GLES2 c) then Inr (ucast (2 * sz))
      else Inl AssertUnreachable)"
| "switch_format c RGInteger sz =
     (if \<not> MAGNUM_TARGET_GLES2 c then Inr (ucast (2 * sz)) else Inl AssertUnreachable)"
| "switch_format c LuminanceAlpha sz =
     (if MAGNUM_TARGET_GLES2 c then Inr (ucast (2 * sz)) else Inl AssertUnreachable)"
| "switch_format c RGB sz = Inr (ucast (3 * sz))"
| "switch_format c RGBInteger sz =
     (if \<not> MAGNUM_TARGET_GLES2 c then Inr (ucast (3 * sz)) else Inl AssertUnreachable)"
| "switch_format c BGR sz =
     (if \<not> MAGNUM_TARGET_GLES c then Inr (ucast (3 * sz)) else Inl AssertUnreachable)"
| "switch_format c BGRInteger sz =
     (if \<not> MAGNUM_TARGET_GLES c then Inr (ucast (3 * sz)) else Inl AssertUnreachable)"
| "switch_format c SRGB sz =
     (if MAGNUM_TARGET_GLES2 c then Inr (ucast (3 * sz)) else Inl AssertUnreachable)"
| "switch_format c RGBA sz = Inr (ucast (4 * sz))"
| "switch_format c RGBAInteger sz =
     (if \<not> MAGNUM_TARGET_GLES2 c then Inr (ucast (4 * sz)) else Inl AssertUnreachable)"
| "switch_format c BGRA sz =
     (if \<not> MAGNUM_TARGET_WEBGL c then Inr (ucast (4 * sz)) else Inl AssertUnreachable)"
| "switch_format c SRGBAlpha sz =
     (if MAGNUM_TARGET_GLES2 c then Inr (ucast (4 * sz)) else Inl AssertUnreachable)"
| "switch_format c BGRAInteger sz =
     (if \<not> MAGNUM_TARGET_GLES c then Inr (ucast (4 * sz)) else Inl AssertUnreachable)"
| "switch_format c DepthStencil sz = Inl (Assert invalid_type_for_depth_stencil 0)"

definition pixelSize :: "'a config_scheme \<Rightarrow> PixelFormat \<Rightarrow> PixelType \<Rightarrow> UnsignedInt result" where
  "pixelSize c format type =
     (case switch_type c type of
        Inl n \<Rightarrow> Inr n
      | Inr sz \<Rightarrow> switch_format c format sz)"

text \<open>
  The debug output operators name every enumerator of the build, one \<^verbatim>\<open>_c(value)\<close> line
  each, under the conditions of the enum declarations. The two functions below say for
  which values the operator's switch has a case, that is, which enumerators the build
  declares.
\<close>

fun debug_PixelFormat_case :: "'a config_scheme \<Rightarrow> PixelFormat \<Rightarrow> bool" where
  "debug_PixelFormat_case c Red \<longleftrightarrow> \<not> (MAGNUM_TARGET_WEBGL c \<and> MAGNUM_TARGET_GLES2 c)"
| "debug_PixelFormat_case c Green \<longleftrightarrow> \<not> MAGNUM_TARGET_GLES c"
| "debug_PixelFormat_case c Blue \<longleftrightarrow> \<not> MAGNUM_TARGET_GLES c"
| "debug_PixelFormat_case c Luminance \<longleftrightarrow> MAGNUM_TARGET_GLES2 c"
| "debug_PixelFormat_case c RG \<longleftrightarrow> \<not> (MAGNUM_TARGET_WEBGL c \<and> MAGNUM_TARGET_GLES2 c)"
| "debug_PixelFormat_case c LuminanceAlpha \<longleftrightarrow> MAGNUM_TARGET_GLES2 c"
| "debug_PixelFormat_case c RGB \<longleftrightarrow> True"
| "debug_PixelFormat_case c RGBA \<longleftrightarrow> True"
| "debug_PixelFormat_case c BGR \<longleftrightarrow> \<not> MAGNUM_TARGET_GLES c"
| "debug_PixelFormat_case c BGRA \<longleftrightarrow> \<not> MAGNUM_TARGET_WEBGL c"
| "debug_PixelFormat_case c SRGB \<longleftrightarrow> MAGNUM_TARGET_GLES2 c"
| "debug_PixelFormat_case c SRGBAlpha \<longleftrightarrow> MAGNUM_TARGET_GLES2 c"
| "debug_PixelFormat_case c RedInteger \<longleftrightarrow> \<not> MAGNUM_TARGET_GLES2 c"
| "debug_PixelFormat_case c GreenInteger \<longleftrightarrow> \<not> MAGNUM_TARGET_GLES2 c \<and> \<not> MAGNUM_TARGET_GLES c"
| "debug_PixelFormat_case c BlueInteger \<longleftrightarrow> \<not> MAGNUM_TARGET_GLES2 c \<and> \<not> MAGNUM_TARGET_GLES c"
| "debug_PixelFormat_case c RGInteger \<longleftrightarrow> \<not> MAGNUM_TARGET_GLES2 c"
| "debug_PixelFormat_case c RGBInteger \<longleftrightarrow> \<not> MAGNUM_TARGET_GLES2 c"
| "debug_PixelFormat_case c RGBAInteger \<longleftrightarrow> \<not> MAGNUM_TARGET_GLES2 c"
| "debug_PixelFormat_case c BGRInteger \<longleftrightarrow> \<not> MAGNUM_TARGET_GLES2 c \<and> \<not> MAGNUM_TARGET_GLES c"
| "debug_PixelFormat_case c BGRAInteger \<longleftrightarrow> \<not> MAGNUM_TARGET_GLES2 c \<and> \<not> MAGNUM_TARGET_GLES c"
| "debug_PixelFormat_case c DepthComponent \<longleftrightarrow> True"
| "debug_PixelFormat_case c StencilIndex \<longleftrightarrow> \<not> MAGNUM_TARGET_WEBGL c"
| "debug_PixelFormat_case c DepthStencil \<longleftrightarrow> True"

fun debug_PixelType_case :: "'a config_scheme \<Rightarrow> PixelType \<Rightarrow> bool" where
  "debug_PixelType_case c UnsignedByte \<longleftrightarrow> True"
| "debug_PixelType_case c Byte \<longleftrightarrow> \<not> MAGNUM_TARGET_GLES2 c"
| "debug_PixelType_case c UnsignedShort \<longleftrightarrow> True"
| "debug_PixelType_case c Short \<longleftrightarrow> \<not> MAGNUM_TARGET_GLES2 c"
| "debug_PixelType_case c UnsignedInt \<longleftrightarrow> True"
| "debug_PixelType_case c Int' \<longleftrightarrow> \<not> MAGNUM_TARGET_GLES2 c"
| "debug_PixelType_case c HalfFloat \<longleftrightarrow> True"
| "debug_PixelType_case c Float \<longleftrightarrow> True"
| "debug_PixelType_case c UnsignedByte332 \<longleftrightarrow> \<not> MAGNUM_TARGET_GLES c"
| "debug_PixelType_case c UnsignedByte233Rev \<longleftrightarrow> \<not> MAGNUM_TARGET_GLES c"
| "debug_PixelType_case c UnsignedShort565 \<longleftrightarrow> True"
| "debug_PixelType_case c UnsignedShort565Rev \<longleftrightarrow> \<not> MAGNUM_TARGET_GLES c"
| "debug_PixelType_case c UnsignedShort4444 \<longleftrightarrow> True"
| "debug_PixelType_case c UnsignedShort4444Rev \<longleftrightarrow> \<not> MAGNUM_TARGET_WEBGL c"
| "debug_PixelType_case c UnsignedShort5551 \<longleftrightarrow> True"
| "debug_PixelType_case c UnsignedShort1555Rev \<longleftrightarrow> \<not> MAGNUM_TARGET_WEBGL c"
| "debug_PixelType_case c UnsignedInt8888 \<longleftrightarrow> \<not> MAGNUM_TARGET_GLES c"
| "debug_PixelType_case c UnsignedInt8888Rev \<longleftrightarrow> \<not> MAGNUM_TARGET_GLES c"
| "debug_PixelType_case c UnsignedInt1010102 \<longleftrightarrow> \<not> MAGNUM_TARGET_GLES c"
| "debug_PixelType_case c UnsignedInt2101010Rev \<longleftrightarrow>
     \<not> (MAGNUM_TARGET_WEBGL c \<and> MAGNUM_TARGET_GLES2 c)"
| "debug_PixelType_case c UnsignedInt10F11F11FRev \<longleftrightarrow> \<not> MAGNUM_TARGET_GLES2 c"
| "debug_PixelType_case c UnsignedInt5999Rev \<longleftrightarrow> \<not> MAGNUM_TARGET_GLES2 c"
| "debug_PixelType_case c UnsignedInt248 \<longleftrightarrow> True"
| "debug_PixelType_case c Float32UnsignedInt248Rev \<longleftrightarrow> \<not> MAGNUM_TARGET_GLES2 c"

text \<open>
  The sizes as the documentation words them: the bytes of one component for the types
  that hold one component per value, the number of components of a format, and the
  types that pack a whole pixel into one value.
\<close>

fun bytes_per_component :: "PixelType \<Rightarrow> UnsignedInt option" where
  "bytes_per_component UnsignedByte = Some 1"
| "bytes_per_component Byte = Some 1"
| "bytes_per_component UnsignedShort = Some 2"
| "bytes_per_component Short = Some 2"
| "bytes_per_component HalfFloat = Some 2"
| "bytes_per_component UnsignedInt = Some 4"
| "bytes_per_component Int' = Some 4"
| "bytes_per_component Float = Some 4"
| "bytes_per_component _ = None"

definition packed :: "PixelType \<Rightarrow> bool" where
  "packed type \<longleftrightarrow> type \<in> {UnsignedByte332, UnsignedByte233Rev, UnsignedShort565,
     UnsignedShort565Rev, UnsignedShort4444, UnsignedShort4444Rev, UnsignedShort5551,
     UnsignedShort1555Rev, UnsignedInt8888, UnsignedInt8888Rev, UnsignedInt1010102,
     UnsignedInt2101010Rev, UnsignedInt10F11F11FRev, UnsignedInt5999Rev, UnsignedInt248,
     Float32UnsignedInt248Rev}"

fun component_count :: "PixelFormat \<Rightarrow> UnsignedInt option" where
  "component_count Red = Some 1"
| "component_count Green = Some 1"
| "component_count Blue = Some 1"
| "component_count RedInteger = Some 1"
| "component_count GreenInteger = Some 1"
| "component_count BlueInteger = Some 1"
| "component_count Luminance = Some 1"
| "component_count DepthComponent = Some 1"
| "component_count StencilIndex = Some 1"
| "component_count RG = Some 2"
| "component_count RGInteger = Some 2"
| "component_count LuminanceAlpha = Some 2"
| "component_count RGB = Some 3"
| "component_count BGR = Some 3"
| "component_count SRGB = Some 3"
| "component_count RGBInteger = Some 3"
| "component_count BGRInteger = Some 3"
| "component_count RGBA = Some 4"
| "component_count BGRA = Some 4"
| "component_count SRGBAlpha = Some 4"
| "component_count RGBAInteger = Some 4"
| "component_count BGRAInteger = Some 4"
| "component_count DepthStencil = None"

section \<open>The texture wrapper\<close>

text \<open>
  A texture object lives at an address; \<^verbatim>\<open>this\<close> is that address, and a method that
  returns \<^verbatim>\<open>this\<close> returns it. The world is the objects by address together with whatever
  state the graphics library keeps. Of the base class only the member \<^verbatim>\<open>_target\<close>, which
  \<^verbatim>\<open>Texture\<close> reads, is visible here.
\<close>

type_synonym address = nat
type_synonym GLint = "32 word"
type_synonym GLfloat = "32 word" \<comment> \<open>only handed on, never computed with: the 32 bits of the value\<close>

record AbstractTexture =
  target' :: GLenum \<comment> \<open>the member \<^verbatim>\<open>_target\<close>\<close>

record 'g world =
  objects :: "address \<Rightarrow> AbstractTexture"
  gl :: 'g

text \<open>
  \<^verbatim>\<open>AbstractTexture.h\<close> (the base class and \<^verbatim>\<open>DataHelper<Dimensions>\<close>) is outside the two
  files verified here. Its operations are taken as given: each changes the world in a way
  that \<^verbatim>\<open>Texture.h\<close> does not see. Enum arguments are held by their underlying values, an
  image by its address, \<^verbatim>\<open>Array<Dimensions, Wrapping>\<close>, the offset vector and the colour
  as lists of their components.
\<close>

record 'g external =
  DataHelper_target :: "8 word \<Rightarrow> GLenum"
  DataHelper_setWrapping :: "8 word \<Rightarrow> address \<Rightarrow> GLenum list \<Rightarrow> 'g world \<Rightarrow> 'g world"
  DataHelper_set ::
    "8 word \<Rightarrow> address \<Rightarrow> GLenum \<Rightarrow> GLint \<Rightarrow> GLenum \<Rightarrow> address \<Rightarrow> 'g world \<Rightarrow> 'g world"
  DataHelper_setSub ::
    "8 word \<Rightarrow> address \<Rightarrow> GLenum \<Rightarrow> GLint \<Rightarrow> GLint list \<Rightarrow> address \<Rightarrow> 'g world \<Rightarrow> 'g world"
  AbstractTexture_constructor :: "address \<Rightarrow> GLenum \<Rightarrow> 'g world \<Rightarrow> 'g world"
  AbstractTexture_setMinificationFilter :: "address \<Rightarrow> GLenum \<Rightarrow> GLenum \<Rightarrow> 'g world \<Rightarrow> 'g world"
  AbstractTexture_setMagnificationFilter :: "address \<Rightarrow> GLenum \<Rightarrow> 'g world \<Rightarrow> 'g world"
  AbstractTexture_setBorderColor :: "address \<Rightarrow> GLfloat list \<Rightarrow> 'g world \<Rightarrow> 'g world"
  AbstractTexture_setMaxAnisotropy :: "address \<Rightarrow> GLfloat \<Rightarrow> 'g world \<Rightarrow> 'g world"
  AbstractTexture_generateMipmap :: "address \<Rightarrow> 'g world \<Rightarrow> 'g world"
  Mipmap_BaseLevel :: GLenum

text \<open>
  \<^verbatim>\<open>template<std::uint8_t dimensions> class Texture\<close>: every member takes the template
  argument first. \<^verbatim>\<open>static const std::uint8_t Dimensions = dimensions\<close>.
\<close>

definition Dimensions :: "8 word \<Rightarrow> 8 word" where
  "Dimensions dimensions = dimensions"

text \<open>
  The constructor; \<open>None\<close> is the call without argument, which takes the default
  \<^verbatim>\<open>DataHelper<Dimensions>::target()\<close>. \<^verbatim>\<open>static_cast\<close> between \<^verbatim>\<open>Target\<close> and \<^verbatim>\<open>GLenum\<close>
  keeps the underlying value.
\<close>

definition Texture :: "'g external \<Rightarrow> 8 word \<Rightarrow> address \<Rightarrow> GLenum option \<Rightarrow> 'g world \<Rightarrow> 'g world" where
  "Texture x dimensions this target w =
     AbstractTexture_constructor x this
       (case target of None \<Rightarrow> DataHelper_target x (Dimensions dimensions) | Some t \<Rightarrow> t) w"

definition target :: "8 word \<Rightarrow> address \<Rightarrow> 'g world \<Rightarrow> GLenum" where
  "target dimensions this w = target' (objects w this)"

definition setWrapping ::
  "'g external \<Rightarrow> 8 word \<Rightarrow> address \<Rightarrow> GLenum list \<Rightarrow> 'g world \<Rightarrow> address \<times> 'g world" where
  "setWrapping x dimensions this wrapping w =
     (this, DataHelper_setWrapping x (Dimensions dimensions) this wrapping w)"

definition setData ::
  "'g external \<Rightarrow> 8 word \<Rightarrow> address \<Rightarrow> GLint \<Rightarrow> GLenum \<Rightarrow> address \<Rightarrow> 'g world \<Rightarrow> address \<times> 'g world" where
  "setData x dimensions this mipLevel internalFormat image' w =
     (this, DataHelper_set x (Dimensions dimensions) this (target' (objects w this))
              mipLevel internalFormat image' w)"

definition setSubData ::
  "'g external \<Rightarrow> 8 word \<Rightarrow> address \<Rightarrow> GLint \<Rightarrow> GLint list \<Rightarrow> address \<Rightarrow> 'g world \<Rightarrow> address \<times> 'g world" where
  "setSubData x dimensions this mipLevel offset image' w =
     (this, DataHelper_setSub x (Dimensions dimensions) this (target' (objects w this))
              mipLevel offset image' w)"

text \<open>\<open>None\<close> for the mipmap is the call that leaves it out: \<^verbatim>\<open>Mipmap::BaseLevel\<close>.\<close>

definition setMinificationFilter ::
  "'g external \<Rightarrow> 8 word \<Rightarrow> address \<Rightarrow> GLenum \<Rightarrow> GLenum option \<Rightarrow> 'g world \<Rightarrow> address \<times> 'g world" where
  "setMinificationFilter x dimensions this filter' mipmap w =
     (this, AbstractTexture_setMinificationFilter x this filter'
              (case mipmap of None \<Rightarrow> Mipmap_BaseLevel x | Some m \<Rightarrow> m) w)"

definition setMagnificationFilter ::
  "'g external \<Rightarrow> 8 word \<Rightarrow> address \<Rightarrow> GLenum \<Rightarrow> 'g world \<Rightarrow> address \<times> 'g world" where
  "setMagnificationFilter x dimensions this filter' w =
     (this, AbstractTexture_setMagnificationFilter x this filter' w)"

text \<open>The next two exist under \<^verbatim>\<open>#ifndef MAGNUM_TARGET_GLES\<close> only.\<close>

definition setBorderColor ::
  "'g external \<Rightarrow> 8 word \<Rightarrow> address \<Rightarrow> GLfloat list \<Rightarrow> 'g world \<Rightarrow> address \<times> 'g world" where
  "setBorderColor x dimensions this color w =
     (this, AbstractTexture_setBorderColor x this color w)"

definition setMaxAnisotropy ::
  "'g external \<Rightarrow> 8 word \<Rightarrow> address \<Rightarrow> GLfloat \<Rightarrow> 'g world \<Rightarrow> address \<times> 'g world" where
  "setMaxAnisotropy x dimensions this anisotropy w =
     (this, AbstractTexture_setMaxAnisotropy x this anisotropy w)"

definition generateMipmap ::
  "'g external \<Rightarrow> 8 word \<Rightarrow> address \<Rightarrow> 'g world \<Rightarrow> address \<times> 'g world" where
  "generateMipmap x dimensions this w = (this, AbstractTexture_generateMipmap x this w)"

text \<open>
  The three typedefs at the end of the header, each with the template argument it
  stands for; \<open>None\<close> where the preprocessor removes the typedef.
\<close>

datatype texture_typedef = Texture1D | Texture2D | Texture3D

fun typedef_Texture :: "'a config_scheme \<Rightarrow> texture_typedef \<Rightarrow> 8 word option" where
  "typedef_Texture c Texture1D = (if \<not> MAGNUM_TARGET_GLES c then Some 1 else None)"
| "typedef_Texture c Texture2D = Some 2"
| "typedef_Texture c Texture3D = Some 3"

text \<open>
  Method chaining, \<^verbatim>\<open>a->m(...)\<close> on the pointer that the previous call returned.
\<close>

definition chain :: "address \<times> 'w \<Rightarrow> (address \<Rightarrow> 'w \<Rightarrow> address \<times> 'w) \<Rightarrow> address \<times> 'w" where
  "chain r m = m (fst r) (snd r)"

section \<open>Example builds\<close>

text \<open>
  A desktop build with the deprecated aliases, and an OpenGL ES 2.0 build. The tables of
  the desktop build have a supported first row and an unsupported second row;
  implementation-specific formats are marked by the highest bit, which unwrapping
  clears.
\<close>

definition desktop :: build where
  "desktop = \<lparr>MAGNUM_BUILD_DEPRECATED = True, MAGNUM_TARGET_GL = True,
     MAGNUM_TARGET_GLES = False, MAGNUM_TARGET_GLES2 = False, MAGNUM_TARGET_WEBGL = False,
     FormatMapping = [(0x1903, 0x1401), (0, 0)],
     CompressedFormatMapping = [0x83F0, 0],
     isPixelFormatImplementationSpecific = (\<lambda>format. bit format 31),
     pixelFormatUnwrap = take_bit 31,
     isCompressedPixelFormatImplementationSpecific = (\<lambda>format. bit format 31),
     compressedPixelFormatUnwrap = take_bit 31\<rparr>"

definition es2 :: config where
  "es2 = \<lparr>MAGNUM_BUILD_DEPRECATED = False, MAGNUM_TARGET_GL = True,
     MAGNUM_TARGET_GLES = True, MAGNUM_TARGET_GLES2 = True, MAGNUM_TARGET_WEBGL = False\<rparr>"

text \<open>
  A graphics library that only records what it is asked to do, and a base class whose
  constructor stores the target in the new object.
\<close>

datatype call =
    SetWrapping "8 word" address "GLenum list"
  | Set "8 word" address GLenum GLint GLenum address
  | SetSub "8 word" address GLenum GLint "GLint list" address
  | Construct address GLenum
  | SetMinificationFilter address GLenum GLenum
  | SetMagnificationFilter address GLenum
  | SetBorderColor address "GLfloat list"
  | SetMaxAnisotropy address GLfloat
  | GenerateMipmap address

definition record_call :: "call \<Rightarrow> call list world \<Rightarrow> call list world" where
  "record_call e w = w\<lparr>gl := gl w @ [e]\<rparr>"

definition recording :: "call list external" where
  "recording = \<lparr>
     DataHelper_target = (\<lambda>d. if d = 1 then 0x0DE0 else if d = 2 then 0x0DE1 else 0x806F),
     DataHelper_setWrapping = (\<lambda>d this wrapping. record_call (SetWrapping d this wrapping)),
     DataHelper_set = (\<lambda>d this t l f i. record_call (Set d this t l f i)),
     DataHelper_setSub = (\<lambda>d this t l off i. record_call (SetSub d this t l off i)),
     AbstractTexture_constructor = (\<lambda>this t w.
        record_call (Construct this t) (w\<lparr>objects := (objects w)(this := \<lparr>target' = t\<rparr>)\<rparr>)),
     AbstractTexture_setMinificationFilter = (\<lambda>this f m. record_call (SetMinificationFilter this f m)),
     AbstractTexture_setMagnificationFilter = (\<lambda>this f. record_call (SetMagnificationFilter this f)),
     AbstractTexture_setBorderColor = (\<lambda>this c. record_call (SetBorderColor this c)),
     AbstractTexture_setMaxAnisotropy = (\<lambda>this a. record_call (SetMaxAnisotropy this a)),
     AbstractTexture_generateMipmap = (\<lambda>this. record_call (GenerateMipmap this)),
     Mipmap_BaseLevel = 0\<rparr>"

definition fresh :: "call list world" where
  "fresh = \<lparr>objects = (\<lambda>_. \<lparr>target' = 0\<rparr>), gl = []\<rparr>"

section \<open>Table lookups\<close>

text \<open>
  The deprecated branch passes every value above \<open>0x1000\<close> through as an OpenGL
  constant. It does not shadow a table row as long as the table has at most \<open>0x1001\<close>
  rows; this is assumed of the tables of a build that has the branch wherever a
  statement speaks of the row a format indexes.
\<close>

definition rows_below_deprecated :: "'a config_scheme \<Rightarrow> nat \<Rightarrow> bool" where
  "rows_below_deprecated c n \<longleftrightarrow> (deprecated_gl c \<longrightarrow> n \<le> 0x1001)"

lemma index_not_deprecated:
  fixes format :: UnsignedInt
  assumes "rows_below_deprecated c n" and "unat format < n"
  shows "\<not> (deprecated_gl c \<and> format > 0x1000)"
proof
  assume a: "deprecated_gl c \<and> format > 0x1000"
  then have "unat (0x1000 :: UnsignedInt) < unat format"
    by (simp add: word_less_nat_alt)
  moreover have "n \<le> 0x1001"
    using a assms(1) by (simp add: rows_below_deprecated_def)
  ultimately show False
    using assms(2) by simp
qed

text \<open>
  C1. For a generic format that is not implementation-specific and indexes a row of
  \<open>FormatMapping\<close>, \<open>pixelFormat\<close> returns the format stored in that row, and fails the
  "not supported on this target" assertion, with the zero value, when the stored format
  is zero. (In a build with the deprecated aliases the table is taken to have at most
  \<open>0x1001\<close> rows, so that every index is a generic format.)
\<close>

theorem pixelFormat_table_lookup:
  assumes "\<not> isPixelFormatImplementationSpecific b format"
    and "unat format < length (FormatMapping b)"
    and "rows_below_deprecated b (length (FormatMapping b))"
  shows "pixelFormat b format =
     (if fst (FormatMapping b ! unat format) = 0
      then Inl (Assert not_supported_on_this_target 0)
      else Inr (fst (FormatMapping b ! unat format)))"
proof -
  have "\<not> (deprecated_gl b \<and> format > 0x1000)"
    using assms(3) assms(2) by (rule index_not_deprecated)
  with assms(1) assms(2) show ?thesis
    by (auto simp add: pixelFormat_def)
qed

theorem pixelFormat_table_lookup_witness:
  "\<not> isPixelFormatImplementationSpecific desktop 0
   \<and> unat (0 :: UnsignedInt) < length (FormatMapping desktop)
   \<and> rows_below_deprecated desktop (length (FormatMapping desktop))
   \<and> pixelFormat desktop 0 = Inr 0x1903
   \<and> pixelFormat desktop 1 = Inl (Assert not_supported_on_this_target 0)"
  using pixelFormat_table_lookup [of desktop 0] pixelFormat_table_lookup [of desktop 1]
  by (simp add: desktop_def rows_below_deprecated_def)

text \<open>
  C2. For a format that is not implementation-specific and indexes a row of
  \<open>FormatMapping\<close>, \<open>pixelType\<close> does not look at \<open>extra\<close>: it returns the type stored
  in the row when that is not zero, and fails the "not supported on this target"
  assertion, with the zero value, when it is zero. For an implementation-specific
  format it returns \<open>extra\<close> as the type, and fails the "no additional type specifier"
  assertion, with the zero value, exactly when \<open>extra\<close> is zero.
\<close>

theorem pixelType_lookup_or_extra:
  "(\<not> isPixelFormatImplementationSpecific b format
      \<and> unat format < length (FormatMapping b)
      \<and> rows_below_deprecated b (length (FormatMapping b)) \<longrightarrow>
      pixelType b format extra =
        (if snd (FormatMapping b ! unat format) = 0
         then Inl (Assert not_supported_on_this_target 0)
         else Inr (snd (FormatMapping b ! unat format))))
   \<and> (isPixelFormatImplementationSpecific b format \<longrightarrow>
      pixelType b format extra =
        (if extra = 0 then Inl (Assert no_additional_type_specifier 0) else Inr extra))"
proof (intro conjI impI)
  assume a: "\<not> isPixelFormatImplementationSpecific b format
      \<and> unat format < length (FormatMapping b)
      \<and> rows_below_deprecated b (length (FormatMapping b))"
  then have "\<not> (deprecated_gl b \<and> format > 0x1000)"
    using index_not_deprecated by blast
  with a show "pixelType b format extra =
        (if snd (FormatMapping b ! unat format) = 0
         then Inl (Assert not_supported_on_this_target 0)
         else Inr (snd (FormatMapping b ! unat format)))"
    by (auto simp add: pixelType_def)
next
  assume "isPixelFormatImplementationSpecific b format"
  then show "pixelType b format extra =
        (if extra = 0 then Inl (Assert no_additional_type_specifier 0) else Inr extra)"
    by (simp add: pixelType_def)
qed

theorem pixelType_lookup_or_extra_witness:
  "\<not> isPixelFormatImplementationSpecific desktop 0
   \<and> unat (0 :: UnsignedInt) < length (FormatMapping desktop)
   \<and> rows_below_deprecated desktop (length (FormatMapping desktop))
   \<and> pixelType desktop 0 7 = Inr 0x1401
   \<and> pixelType desktop 1 7 = Inl (Assert not_supported_on_this_target 0)
   \<and> isPixelFormatImplementationSpecific desktop 0x80000001
   \<and> pixelType desktop 0x80000001 0x1403 = Inr 0x1403
   \<and> pixelType desktop 0x80000001 0 = Inl (Assert no_additional_type_specifier 0)"
  using pixelType_lookup_or_extra [of desktop 0 7] pixelType_lookup_or_extra [of desktop 1 7]
    pixelType_lookup_or_extra [of desktop "0x80000001" "0x1403"]
    pixelType_lookup_or_extra [of desktop "0x80000001" "0"]
  by (simp add: desktop_def rows_below_deprecated_def bit_iff_odd)

text \<open>
  The second row of the desktop example is an unsupported format, \<open>(0, 0)\<close>: there
  \<open>pixelType\<close> does not return the stored type but fails.
\<close>

theorem pixelType_unsupported_row:
  "\<not> isPixelFormatImplementationSpecific desktop 1
   \<and> unat (1 :: UnsignedInt) < length (FormatMapping desktop)
   \<and> pixelType desktop 1 7 \<noteq> Inr (snd (FormatMapping desktop ! unat (1 :: UnsignedInt)))"
  by (simp add: pixelType_def desktop_def deprecated_gl_def bit_iff_odd)

text \<open>
  C3. For a format that is not implementation-specific and indexes a row of
  \<open>FormatMapping\<close>, \<open>hasPixelFormat\<close> returns true exactly when \<open>pixelFormat\<close> succeeds,
  and the only way \<open>pixelFormat\<close> fails there is the "not supported on this target"
  assertion. For an implementation-specific format \<open>hasPixelFormat\<close> returns true.
\<close>

theorem hasPixelFormat_iff_pixelFormat:
  "(\<not> isPixelFormatImplementationSpecific b format \<and> unat format < length (FormatMapping b) \<longrightarrow>
      hasPixelFormat b format = Inr (\<not> isl (pixelFormat b format))
      \<and> (isl (pixelFormat b format) \<longrightarrow>
           pixelFormat b format = Inl (Assert not_supported_on_this_target 0)))
   \<and> (isPixelFormatImplementationSpecific b format \<longrightarrow> hasPixelFormat b format = Inr True)"
  by (simp add: hasPixelFormat_def pixelFormat_def Let_def)

theorem hasPixelFormat_iff_pixelFormat_witness:
  "\<not> isPixelFormatImplementationSpecific desktop 0
   \<and> unat (0 :: UnsignedInt) < length (FormatMapping desktop)
   \<and> hasPixelFormat desktop 0 = Inr True \<and> pixelFormat desktop 0 = Inr 0x1903
   \<and> \<not> isPixelFormatImplementationSpecific desktop 1
   \<and> unat (1 :: UnsignedInt) < length (FormatMapping desktop)
   \<and> hasPixelFormat desktop 1 = Inr False
   \<and> pixelFormat desktop 1 = Inl (Assert not_supported_on_this_target 0)
   \<and> isPixelFormatImplementationSpecific desktop 0x80000001
   \<and> hasPixelFormat desktop 0x80000001 = Inr True"
proof -
  have h0: "\<not> isPixelFormatImplementationSpecific desktop 0
      \<and> unat (0 :: UnsignedInt) < length (FormatMapping desktop)"
    by (simp add: desktop_def bit_iff_odd)
  have h1: "\<not> isPixelFormatImplementationSpecific desktop 1
      \<and> unat (1 :: UnsignedInt) < length (FormatMapping desktop)"
    by (simp add: desktop_def bit_iff_odd)
  have h2: "isPixelFormatImplementationSpecific desktop 0x80000001"
    by (simp add: desktop_def bit_iff_odd)
  have p0: "pixelFormat desktop 0 = Inr 0x1903"
    by (simp add: pixelFormat_def deprecated_gl_def desktop_def bit_iff_odd)
  have p1: "pixelFormat desktop 1 = Inl (Assert not_supported_on_this_target 0)"
    by (simp add: pixelFormat_def deprecated_gl_def desktop_def bit_iff_odd)
  from hasPixelFormat_iff_pixelFormat [of desktop 0] h0
  have "hasPixelFormat desktop 0 = Inr (\<not> isl (pixelFormat desktop 0))" by blast
  then have r0: "hasPixelFormat desktop 0 = Inr True" by (simp only: p0 sum.disc simp_thms)
  from hasPixelFormat_iff_pixelFormat [of desktop 1] h1
  have "hasPixelFormat desktop 1 = Inr (\<not> isl (pixelFormat desktop 1))" by blast
  then have r1: "hasPixelFormat desktop 1 = Inr False" by (simp only: p1 sum.disc simp_thms)
  from hasPixelFormat_iff_pixelFormat [of desktop "0x80000001"] h2
  have r2: "hasPixelFormat desktop 0x80000001 = Inr True" by blast
  from h0 h1 h2 p0 p1 r0 r1 r2 show ?thesis by blast
qed

text \<open>
  C4. For a compressed format that is not implementation-specific and indexes a zero
  entry of \<open>CompressedFormatMapping\<close>, \<open>hasCompressedPixelFormat\<close> returns false, yet
  \<open>compressedPixelFormat\<close> does not fail and returns the zero value; \<open>pixelFormat\<close>, for a
  format \<open>g\<close> in the same situation in \<open>FormatMapping\<close>, fails the "not supported on this
  target" assertion. (Tables of at most \<open>0x1001\<close> rows in a build with the deprecated
  aliases, as for C1.)
\<close>

theorem compressed_zero_entry:
  assumes "\<not> isCompressedPixelFormatImplementationSpecific b format"
    and "unat format < length (CompressedFormatMapping b)"
    and "CompressedFormatMapping b ! unat format = 0"
    and "rows_below_deprecated b (length (CompressedFormatMapping b))"
  shows "hasCompressedPixelFormat b format = Inr False
     \<and> compressedPixelFormat b format = Inr 0
     \<and> (\<not> isPixelFormatImplementationSpecific b g \<and> unat g < length (FormatMapping b)
          \<and> fst (FormatMapping b ! unat g) = 0
          \<and> rows_below_deprecated b (length (FormatMapping b)) \<longrightarrow>
        hasPixelFormat b g = Inr False
        \<and> pixelFormat b g = Inl (Assert not_supported_on_this_target 0))"
proof -
  have c: "\<not> (deprecated_gl b \<and> format > 0x1000)"
    using assms(4) assms(2) by (rule index_not_deprecated)
  have "\<not> (deprecated_gl b \<and> g > 0x1000)"
    if "unat g < length (FormatMapping b)" "rows_below_deprecated b (length (FormatMapping b))"
    using that(2) that(1) by (rule index_not_deprecated)
  with c assms(1-3) show ?thesis
    by (auto simp add: hasCompressedPixelFormat_def compressedPixelFormat_def
        hasPixelFormat_def pixelFormat_def)
qed

theorem compressed_zero_entry_witness:
  "\<not> isCompressedPixelFormatImplementationSpecific desktop 1
   \<and> unat (1 :: UnsignedInt) < length (CompressedFormatMapping desktop)
   \<and> CompressedFormatMapping desktop ! unat (1 :: UnsignedInt) = 0
   \<and> rows_below_deprecated desktop (length (CompressedFormatMapping desktop))
   \<and> hasCompressedPixelFormat desktop 1 = Inr False
   \<and> compressedPixelFormat desktop 1 = Inr 0
   \<and> \<not> isPixelFormatImplementationSpecific desktop 1
   \<and> unat (1 :: UnsignedInt) < length (FormatMapping desktop)
   \<and> fst (FormatMapping desktop ! unat (1 :: UnsignedInt)) = 0
   \<and> rows_below_deprecated desktop (length (FormatMapping desktop))
   \<and> hasPixelFormat desktop 1 = Inr False
   \<and> pixelFormat desktop 1 = Inl (Assert not_supported_on_this_target 0)"
  using compressed_zero_entry [of desktop 1 1]
  by (simp add: desktop_def rows_below_deprecated_def bit_iff_odd)

text \<open>
  C5. For a compressed format that is not implementation-specific and indexes an entry
  of \<open>CompressedFormatMapping\<close>, \<open>compressedPixelFormat\<close> returns exactly that entry; for
  an implementation-specific one it returns the unwrapped value. (Table of at most
  \<open>0x1001\<close> rows in a build with the deprecated aliases, as for C1.)
\<close>

theorem compressedPixelFormat_lookup_or_unwrap:
  "(\<not> isCompressedPixelFormatImplementationSpecific b format
      \<and> unat format < length (CompressedFormatMapping b)
      \<and> rows_below_deprecated b (length (CompressedFormatMapping b)) \<longrightarrow>
      compressedPixelFormat b format = Inr (CompressedFormatMapping b ! unat format))
   \<and> (isCompressedPixelFormatImplementationSpecific b format \<longrightarrow>
      compressedPixelFormat b format = Inr (compressedPixelFormatUnwrap b format))"
proof (intro conjI impI)
  assume a: "\<not> isCompressedPixelFormatImplementationSpecific b format
      \<and> unat format < length (CompressedFormatMapping b)
      \<and> rows_below_deprecated b (length (CompressedFormatMapping b))"
  then have "\<not> (deprecated_gl b \<and> format > 0x1000)"
    using index_not_deprecated by blast
  with a show "compressedPixelFormat b format = Inr (CompressedFormatMapping b ! unat format)"
    by (auto simp add: compressedPixelFormat_def)
next
  assume "isCompressedPixelFormatImplementationSpecific b format"
  then show "compressedPixelFormat b format = Inr (compressedPixelFormatUnwrap b format)"
    by (simp add: compressedPixelFormat_def)
qed

theorem compressedPixelFormat_lookup_or_unwrap_witness:
  "\<not> isCompressedPixelFormatImplementationSpecific desktop 0
   \<and> unat (0 :: UnsignedInt) < length (CompressedFormatMapping desktop)
   \<and> rows_below_deprecated desktop (length (CompressedFormatMapping desktop))
   \<and> compressedPixelFormat desktop 0 = Inr 0x83F0
   \<and> isCompressedPixelFormatImplementationSpecific desktop 0x80008C00
   \<and> compressedPixelFormat desktop 0x80008C00 = Inr 0x8C00"
  using compressedPixelFormat_lookup_or_unwrap [of desktop 0]
    compressedPixelFormat_lookup_or_unwrap [of desktop "0x80008C00"]
  by (simp add: desktop_def rows_below_deprecated_def bit_iff_odd)

section \<open>Pixel sizes\<close>

text \<open>
  Where the build declares the enumerator, the switch has its case: the type switch
  leaves the component size in \<^verbatim>\<open>size\<close>, the format switch multiplies by the component
  count.
\<close>

lemma switch_type_component:
  assumes "debug_PixelType_case c type" and "bytes_per_component type = Some s"
  shows "switch_type c type = Inr (ucast s)"
  using assms by (cases type) auto

lemma switch_format_count:
  assumes "debug_PixelFormat_case c format"
  shows "switch_format c format sz =
     (case component_count format of
        Some n \<Rightarrow> Inr (ucast (ucast n * sz))
      | None \<Rightarrow> Inl (Assert invalid_type_for_depth_stencil 0))"
  using assms by (cases format) auto

lemma bytes_per_component_cases:
  "bytes_per_component type = Some s \<Longrightarrow> s = 1 \<or> s = 2 \<or> s = 4"
  by (cases type) auto

lemma component_count_cases:
  "component_count format = Some n \<Longrightarrow> n = 1 \<or> n = 2 \<or> n = 3 \<or> n = 4"
  by (cases format) auto

text \<open>
  C6. For a format and a type of one component per value (\<open>UnsignedByte\<close>, \<open>Byte\<close>,
  \<open>UnsignedShort\<close>, \<open>Short\<close>, \<open>HalfFloat\<close>, \<open>UnsignedInt\<close>, \<open>Int\<close>, \<open>Float\<close>), both declared
  in the build, \<open>pixelSize\<close> returns the byte size of a component (1, 2 or 4) times
  the component count of the format (1 to 4), and fails its assertion, returning 0, when
  the format is \<open>DepthStencil\<close>.
\<close>

theorem pixelSize_components:
  assumes "debug_PixelFormat_case c format" and "debug_PixelType_case c type"
    and "bytes_per_component type = Some s"
  shows "pixelSize c format type =
     (case component_count format of
        Some n \<Rightarrow> Inr (s * n)
      | None \<Rightarrow> Inl (Assert invalid_type_for_depth_stencil 0))"
proof (cases "component_count format")
  case None
  then show ?thesis
    using assms by (simp add: pixelSize_def switch_type_component switch_format_count)
next
  case (Some n)
  have "(ucast (ucast n * (ucast s :: 64 word)) :: UnsignedInt) = s * n"
    using component_count_cases [OF Some] bytes_per_component_cases [OF assms(3)]
    by auto
  then show ?thesis
    using assms Some by (simp add: pixelSize_def switch_type_component switch_format_count)
qed

theorem pixelSize_components_witness:
  "debug_PixelFormat_case desktop RGBA \<and> debug_PixelType_case desktop Float
   \<and> bytes_per_component Float = Some 4
   \<and> pixelSize desktop RGBA Float = Inr 16
   \<and> debug_PixelFormat_case es2 LuminanceAlpha \<and> debug_PixelType_case es2 HalfFloat
   \<and> bytes_per_component HalfFloat = Some 2
   \<and> pixelSize es2 LuminanceAlpha HalfFloat = Inr 4
   \<and> debug_PixelFormat_case desktop DepthStencil \<and> debug_PixelType_case desktop UnsignedInt
   \<and> bytes_per_component UnsignedInt = Some 4
   \<and> pixelSize desktop DepthStencil UnsignedInt = Inl (Assert invalid_type_for_depth_stencil 0)"
  using pixelSize_components [of desktop RGBA Float 4]
    pixelSize_components [of es2 LuminanceAlpha HalfFloat 2]
    pixelSize_components [of desktop DepthStencil UnsignedInt 4]
  by (simp add: desktop_def es2_def)

text \<open>
  C7. For a packed type declared in the build, \<open>pixelSize\<close> returns the same for any two
  formats, and the result is one of 1, 2, 4 and 8 bytes.
\<close>

theorem pixelSize_packed:
  assumes "packed type" and "debug_PixelType_case c type"
  shows "pixelSize c format type = pixelSize c format' type
     \<and> pixelSize c format type \<in> {Inr 1, Inr 2, Inr 4, Inr 8}"
  using assms by (cases type) (simp_all add: packed_def pixelSize_def)

theorem pixelSize_packed_witness:
  "packed UnsignedShort565 \<and> debug_PixelType_case es2 UnsignedShort565
   \<and> pixelSize es2 RGB UnsignedShort565 = pixelSize es2 DepthStencil UnsignedShort565
   \<and> pixelSize es2 RGB UnsignedShort565 \<in> {Inr 1, Inr 2, Inr 4, Inr 8}
   \<and> packed Float32UnsignedInt248Rev \<and> debug_PixelType_case desktop Float32UnsignedInt248Rev
   \<and> pixelSize desktop DepthStencil Float32UnsignedInt248Rev
       = pixelSize desktop Red Float32UnsignedInt248Rev"
proof -
  have p1: "packed UnsignedShort565" and p2: "packed Float32UnsignedInt248Rev"
    by (simp_all add: packed_def)
  have d1: "debug_PixelType_case es2 UnsignedShort565" by simp
  have d2: "debug_PixelType_case desktop Float32UnsignedInt248Rev"
    by (simp add: desktop_def)
  from p1 d1 p2 d2
    pixelSize_packed [OF p1 d1, of RGB DepthStencil]
    pixelSize_packed [OF p2 d2, of DepthStencil Red]
  show ?thesis by blast
qed

section \<open>Texture methods\<close>

text \<open>
  C8. Each chainable setter of \<open>Texture\<close> (\<open>setWrapping\<close>, \<open>setData\<close>, \<open>setSubData\<close>,
  \<open>setMinificationFilter\<close> with and without its mipmap argument, \<open>setMagnificationFilter\<close>,
  \<open>setBorderColor\<close>, \<open>setMaxAnisotropy\<close>, \<open>generateMipmap\<close>) returns the address of the
  texture it was called on, and the world it leaves is the one that a single call of
  the helper or base-class operation leaves, with the arguments passed on unchanged
  (and the object's own target for \<open>setData\<close> and \<open>setSubData\<close>).
\<close>

theorem setters_return_this:
  "setWrapping x d this wrapping w = (this, DataHelper_setWrapping x d this wrapping w)
   \<and> setData x d this mipLevel internalFormat image' w =
       (this, DataHelper_set x d this (target d this w) mipLevel internalFormat image' w)
   \<and> setSubData x d this mipLevel offset image' w =
       (this, DataHelper_setSub x d this (target d this w) mipLevel offset image' w)
   \<and> setMinificationFilter x d this filter' (Some mipmap) w =
       (this, AbstractTexture_setMinificationFilter x this filter' mipmap w)
   \<and> setMinificationFilter x d this filter' None w =
       (this, AbstractTexture_setMinificationFilter x this filter' (Mipmap_BaseLevel x) w)
   \<and> setMagnificationFilter x d this filter' w =
       (this, AbstractTexture_setMagnificationFilter x this filter' w)
   \<and> setBorderColor x d this color w = (this, AbstractTexture_setBorderColor x this color w)
   \<and> setMaxAnisotropy x d this anisotropy w =
       (this, AbstractTexture_setMaxAnisotropy x this anisotropy w)
   \<and> generateMipmap x d this w = (this, AbstractTexture_generateMipmap x this w)"
  by (simp add: setWrapping_def setData_def setSubData_def setMinificationFilter_def
      setMagnificationFilter_def setBorderColor_def setMaxAnisotropy_def generateMipmap_def
      Dimensions_def target_def)

text \<open>
  The chain of the class documentation, on a library that records its calls: six
  calls are recorded, in order, all on the texture at address 7, which the chain
  returns.
\<close>

lemma usage_chain:
  "chain (chain (chain (chain (chain
     (setMagnificationFilter recording 2 7 0x2601 fresh)
     (\<lambda>this. setMinificationFilter recording 2 this 0x2601 (Some 0x0103)))
     (\<lambda>this. setWrapping recording 2 this [0x812F, 0x812F]))
     (\<lambda>this. setMaxAnisotropy recording 2 this 0x41800000))
     (\<lambda>this. setData recording 2 this 0 0x8058 99))
     (\<lambda>this. generateMipmap recording 2 this)
   = (7, fresh\<lparr>gl := [SetMagnificationFilter 7 0x2601, SetMinificationFilter 7 0x2601 0x0103,
        SetWrapping 2 7 [0x812F, 0x812F], SetMaxAnisotropy 7 0x41800000,
        Set 2 7 0 0 0x8058 99, GenerateMipmap 7]\<rparr>)"
  by (simp add: chain_def setWrapping_def setData_def setMinificationFilter_def
      setMagnificationFilter_def setMaxAnisotropy_def generateMipmap_def
      Dimensions_def recording_def record_call_def fresh_def)

text \<open>The dimension counts for which a typedef exists.\<close>

lemma UNIV_texture_typedef: "UNIV = {Texture1D, Texture2D, Texture3D}"
  by (auto intro: texture_typedef.exhaust)

lemma ran_UNION: "ran m = (\<Union>n\<in>UNIV. set_option (m n))"
  by (auto simp add: ran_def)

lemma ran_typedef_Texture:
  "ran (typedef_Texture c) = (if MAGNUM_TARGET_GLES c then {2, 3} else {1, 2, 3})"
  by (simp add: ran_UNION UNIV_texture_typedef insert_commute)

text \<open>
  C10. The typedefs \<open>Texture2D\<close> and \<open>Texture3D\<close> stand for \<open>Texture<2>\<close> and \<open>Texture<3>\<close>
  in every build, \<open>Texture1D\<close> stands for \<open>Texture<1>\<close> where the target is not OpenGL ES
  and does not exist where it is; so the wrapper is provided for exactly the dimension
  counts 1, 2, 3 on desktop and 2, 3 on OpenGL ES. For each instance the static member
  \<open>Dimensions\<close> is the template argument, and \<open>target()\<close> returns the target the object was
  constructed with, the default \<^verbatim>\<open>DataHelper<Dimensions>::target()\<close> when none was given,
  provided the base-class constructor stores its argument in \<^verbatim>\<open>_target\<close>.
\<close>

theorem Texture_typedefs_and_target:
  "typedef_Texture c Texture1D = (if MAGNUM_TARGET_GLES c then None else Some 1)
   \<and> typedef_Texture c Texture2D = Some 2
   \<and> typedef_Texture c Texture3D = Some 3
   \<and> ran (typedef_Texture c) = (if MAGNUM_TARGET_GLES c then {2, 3} else {1, 2, 3})
   \<and> Dimensions d = d
   \<and> (target' (objects (AbstractTexture_constructor x this t w) this) = t \<longrightarrow>
        target d this (Texture x d this (Some t) w) = t)
   \<and> (target' (objects (AbstractTexture_constructor x this (DataHelper_target x d) w) this)
          = DataHelper_target x d \<longrightarrow>
        target d this (Texture x d this None w) = DataHelper_target x d)"
  by (simp add: ran_typedef_Texture Dimensions_def target_def Texture_def)

theorem Texture_typedefs_and_target_witness:
  "target' (objects (AbstractTexture_constructor recording 7 0x8C1A fresh) 7) = 0x8C1A
   \<and> target 3 7 (Texture recording 3 7 (Some 0x8C1A) fresh) = 0x8C1A
   \<and> target' (objects (AbstractTexture_constructor recording 7 (DataHelper_target recording 2) fresh) 7)
        = DataHelper_target recording 2
   \<and> target 2 7 (Texture recording 2 7 None fresh) = 0x0DE1
   \<and> typedef_Texture es2 Texture1D = None
   \<and> typedef_Texture desktop Texture1D = Some 1"
  using Texture_typedefs_and_target [of es2 3 recording 7 "0x8C1A" fresh]
    Texture_typedefs_and_target [of desktop 2 recording 7 "0x8C1A" fresh]
  by (simp add: recording_def record_call_def fresh_def es2_def desktop_def)

text \<open>In the OpenGL ES 2.0 example build \<open>Texture1D\<close> is not \<open>Texture<1>\<close>: it is not defined.\<close>

theorem Texture1D_absent_on_ES: "typedef_Texture es2 Texture1D \<noteq> Some 1"
  by (simp add: es2_def)

end
